theory Spec2Isabelle
  imports Complex_Main "HOL-Library.Sublist" "HOL-Library.Log_Nat"
begin

section \<open>Values exchanged with the browser\<close>

text \<open>
  The page and its two image libraries run inside a browser. The values they pass around
  are modelled as follows.
  \<^item> A \<open>Blob\<close> is its MIME type and its content. The content is either raw bytes (a file the
    user picked) or the encoding of a bitmap of known pixel dimensions (what
    \<open>canvas.toBlob\<close> produces). The pixels themselves are not modelled.
  \<^item> A \<open>File\<close> is a blob with a name.
  \<^item> A URL is a string. Strings minted by \<open>URL.createObjectURL\<close> are kept symbolic as
    \<open>ObjectUrl b\<close>; every other string (a data URL, the empty string) is \<open>Str s\<close>.
\<close>

datatype content = Raw string | Encoded nat nat

record blob =
  blob_type :: string
  blob_content :: content

record fileobj =
  file_name :: string
  file_blob :: blob

datatype url = Str string | ObjectUrl blob

text \<open>JavaScript truthiness of a string: only the empty string is falsy.\<close>

fun truthy_url :: "url \<Rightarrow> bool" where
  "truthy_url (Str s) = (s \<noteq> [])"
| "truthy_url (ObjectUrl b) = True"

definition truthy :: "string \<Rightarrow> bool" where
  "truthy s = (s \<noteq> [])"

text \<open>\<open>a || b\<close> on a possibly absent string: \<open>a\<close> when it is present and non-empty.\<close>

fun or_else :: "string option \<Rightarrow> string \<Rightarrow> string" where
  "or_else None d = d"
| "or_else (Some s) d = (if truthy s then s else d)"

record image =
  img_width :: nat
  img_height :: nat

record canvas =
  cv_width :: nat
  cv_height :: nat

text \<open>The three drawing surfaces the code creates, in the order of the source.\<close>

datatype surface = RotatedCanvas | CroppedCanvas | ScaledCanvas

subsection \<open>The verification service's payload\<close>

record ocr_result =
  full_text :: string
  ocr_status :: string

record authenticity_result =
  is_authentic :: bool
  confidence :: real
  authenticity_confidence :: real
  status :: string
  document_type :: string
  reasoning :: "string option"
  anomaly_score :: real
  ocr_result :: ocr_result

record response_data =
  resp_result :: "authenticity_result option"
  resp_error :: "string option"

datatype form_value = FileValue fileobj | StringValue string

type_synonym form_data = "(string \<times> form_value) list"

text \<open>
  A request either resolves with the response body, or throws. What the \<open>catch\<close> block
  reads of the thrown error is \<open>err.response?.data?.message\<close>, absent for a network
  failure.
\<close>

datatype http_outcome = Responded response_data | Threw "string option"

subsection \<open>The host environment\<close>

text \<open>
  Everything the browser decides is a field of the host: whether an image source decodes
  (the \<open>load\<close> or the \<open>error\<close> event), whether a canvas yields a 2D context, whether
  \<open>toBlob\<close> hands a blob to its callback (and of which type) or \<open>null\<close>, what the
  \<open>FileReader\<close> delivers, what \<open>fetch\<close> of a URL yields, and what the server answers.
\<close>

record host =
  loadImage :: "url \<Rightarrow> image option"
  getContext2d :: "surface \<Rightarrow> bool"
  encode :: "canvas \<Rightarrow> string \<Rightarrow> rat option \<Rightarrow> string option"
  readAsDataURL :: "fileobj \<Rightarrow> string option"
  fetchBlob :: "url \<Rightarrow> blob option"
  post :: "string \<Rightarrow> form_data \<Rightarrow> http_outcome"

text \<open>
  \<open>canvas.toBlob(callback, type, quality)\<close>: the blob, when there is one, encodes the
  canvas's bitmap, so it has the canvas's dimensions.
\<close>

definition toBlob :: "host \<Rightarrow> canvas \<Rightarrow> string \<Rightarrow> rat option \<Rightarrow> blob option" where
  "toBlob env c mimeType quality =
     (case encode env c mimeType quality of
        None \<Rightarrow> None
      | Some t \<Rightarrow> Some \<lparr>blob_type = t, blob_content = Encoded (cv_width c) (cv_height c)\<rparr>)"

text \<open>
  Assigning a number to \<open>canvas.width\<close> or \<open>canvas.height\<close> converts it to an
  \<open>unsigned long\<close>: truncation towards zero, then reduction modulo \<open>2^32\<close>. The attribute
  reflects a content attribute limited to \<open>2^31 - 1\<close>; a larger value is replaced by the
  default (300 for the width, 150 for the height).
\<close>

definition reflect_dimension :: "nat \<Rightarrow> nat \<Rightarrow> nat" where
  "reflect_dimension dflt n = (if n \<le> 2147483647 then n else dflt)"

definition ulong_of_real :: "real \<Rightarrow> nat" where
  "ulong_of_real x = nat ((if x < 0 then - \<lfloor>- x\<rfloor> else \<lfloor>x\<rfloor>) mod 2 ^ 32)"

section \<open>The crop library (\<open>getCroppedImg\<close>)\<close>

text \<open>
  The numbers of this library go through \<open>Math.cos\<close> and \<open>Math.sin\<close>; they are modelled
  as real numbers, with exact arithmetic.
\<close>

datatype reason = ErrorEvent | Error string

datatype 'a promise = Resolved 'a | Rejected reason

definition createImage :: "host \<Rightarrow> url \<Rightarrow> image promise" where
  "createImage env u =
     (case loadImage env u of Some img \<Rightarrow> Resolved img | None \<Rightarrow> Rejected ErrorEvent)"

definition getRadianAngle :: "real \<Rightarrow> real" where
  "getRadianAngle degreeValue = (degreeValue * pi) / 180"

record box =
  box_width :: real
  box_height :: real

definition rotateSize :: "real \<Rightarrow> real \<Rightarrow> real \<Rightarrow> box" where
  "rotateSize w h rotation =
     (let rotRad = getRadianAngle rotation in
      \<lparr>box_width = \<bar>cos rotRad * w\<bar> + \<bar>sin rotRad * h\<bar>,
       box_height = \<bar>sin rotRad * w\<bar> + \<bar>cos rotRad * h\<bar>\<rparr>)"

record pixel_crop =
  crop_x :: real
  crop_y :: real
  crop_width :: real
  crop_height :: real

record flip =
  horizontal :: bool
  vertical :: bool

text \<open>
  \<open>getCroppedImg\<close>, statement by statement. The transforms and the two \<open>drawImage\<close>
  calls change pixels only, which the model does not carry; what remains is the dimensions
  of the two canvases and the four ways out of the function: the image fails to load
  (rejection with the error event), either canvas has no 2D context (\<open>return null\<close>), the
  encoder hands \<open>null\<close> to the callback (rejection with \<open>Failed to create blob.\<close>), or the
  blob's object URL is returned.
\<close>

definition getCroppedImg ::
  "host \<Rightarrow> url \<Rightarrow> pixel_crop \<Rightarrow> real \<Rightarrow> flip \<Rightarrow> url option promise" where
  "getCroppedImg env imageSrc pixelCrop rotation flp =
     (case createImage env imageSrc of
        Rejected e \<Rightarrow> Rejected e
      | Resolved img \<Rightarrow>
          if \<not> getContext2d env RotatedCanvas then Resolved None
          else
            let bBox = rotateSize (real (img_width img)) (real (img_height img)) rotation;
                rotated = \<lparr>cv_width = reflect_dimension 300 (ulong_of_real (box_width bBox)),
                           cv_height = reflect_dimension 150 (ulong_of_real (box_height bBox))\<rparr>
            in
              if \<not> getContext2d env CroppedCanvas then Resolved None
              else
                let croppedCanvas =
                      \<lparr>cv_width = reflect_dimension 300 (ulong_of_real (crop_width pixelCrop)),
                       cv_height = reflect_dimension 150 (ulong_of_real (crop_height pixelCrop))\<rparr>
                in
                  (case toBlob env croppedCanvas ''image/png'' None of
                     Some f \<Rightarrow> Resolved (Some (ObjectUrl f))
                   | None \<Rightarrow> Rejected (Error ''Failed to create blob.'')))"

text \<open>The defaults of the last two parameters: \<open>rotation = 0\<close>, no flip.\<close>

definition no_flip :: flip where
  "no_flip = \<lparr>horizontal = False, vertical = False\<rparr>"

definition getCroppedImg_default :: "host \<Rightarrow> url \<Rightarrow> pixel_crop \<Rightarrow> url option promise" where
  "getCroppedImg_default env imageSrc pixelCrop = getCroppedImg env imageSrc pixelCrop 0 no_flip"

section \<open>The compression library (\<open>optimizeImage\<close>)\<close>

subsection \<open>The one multiplication, in binary64\<close>

text \<open>
  The only arithmetic of \<open>optimizeImage\<close> that reaches the output is
  \<open>originalImage.width * scale\<close> (and the same for the height), whose result is assigned
  to a canvas dimension and truncated there. Whether the truncation gives the expected
  integer depends on how the product is rounded, so this multiplication is modelled as
  IEEE 754 binary64 does it, for the finite non-negative numbers that occur: a number is a
  significand and a binary exponent, a product is the exact product rounded to 53
  significant bits, to nearest, ties to even. Exponent overflow and subnormal numbers
  are out of reach of an \<open>unsigned long\<close> times a constant near one and are not modelled.
\<close>

record double =
  mant :: nat
  expo :: int

definition dbl_value :: "double \<Rightarrow> rat" where
  "dbl_value d = of_nat (mant d) * power_int 2 (expo d)"

text \<open>Dropping the \<open>k\<close> low bits of \<open>p\<close>, to nearest, ties to even.\<close>

definition round_nearest_even :: "nat \<Rightarrow> nat \<Rightarrow> nat" where
  "round_nearest_even p k =
     (let q = p div 2 ^ k; r = p mod 2 ^ k
      in if 2 ^ k < 2 * r \<or> (2 * r = 2 ^ k \<and> odd q) then q + 1 else q)"

text \<open>
  The binary64 nearest to \<open>p * 2^e\<close>: \<open>floorlog 2 p\<close> is the bit length of \<open>p\<close>, and only
  the bits beyond 53 are rounded away. (A round-up to \<open>2^53\<close> is left as it is: it denotes
  the same number as its normalised form.)
\<close>

definition dbl_round :: "nat \<Rightarrow> int \<Rightarrow> double" where
  "dbl_round p e =
     (let k = floorlog 2 p - 53
      in \<lparr>mant = round_nearest_even p k, expo = e + int k\<rparr>)"

definition dbl_mul :: "double \<Rightarrow> double \<Rightarrow> double" where
  "dbl_mul a b = dbl_round (mant a * mant b) (expo a + expo b)"

text \<open>An image dimension is an \<open>unsigned long\<close>; as a number it is exact.\<close>

definition dbl_of_nat :: "nat \<Rightarrow> double" where
  "dbl_of_nat n = \<lparr>mant = n, expo = 0\<rparr>"

text \<open>The conversion to \<open>unsigned long\<close> of a non-negative binary64.\<close>

definition ulong_of_dbl :: "double \<Rightarrow> nat" where
  "ulong_of_dbl d =
     (if 0 \<le> expo d then mant d * 2 ^ nat (expo d) else mant d div 2 ^ nat (- expo d)) mod 2 ^ 32"

text \<open>The literal \<open>0.9\<close>: the binary64 \<open>0x3FECCCCCCCCCCCCD\<close>.\<close>

definition scale :: double where
  "scale = \<lparr>mant = 8106479329266893, expo = - 53\<rparr>"

text \<open>The literal \<open>0.5\<close>, which only travels to the encoder.\<close>

definition quality :: rat where
  "quality = 1 / 2"

subsection \<open>\<open>optimizeImage\<close>\<close>

text \<open>The first parameter is a \<open>File\<close> or a string; the third selects the shape of the result.\<close>

datatype image_source = FromFile fileobj | FromUrl url

datatype return_type = AsString | AsFile

datatype optimized = OptUrl url | OptFile fileobj

text \<open>\<open>!file\<close>: \<open>null\<close> and the empty string are falsy, a \<open>File\<close> object is truthy.\<close>

fun falsy_source :: "image_source option \<Rightarrow> bool" where
  "falsy_source None = True"
| "falsy_source (Some (FromFile f)) = False"
| "falsy_source (Some (FromUrl u)) = (\<not> truthy_url u)"

text \<open>\<open>originalImage.width * scale\<close>, assigned to a canvas dimension with default \<open>dflt\<close>.\<close>

definition scaled_dimension :: "nat \<Rightarrow> nat \<Rightarrow> nat" where
  "scaled_dimension dflt n = reflect_dimension dflt (ulong_of_dbl (dbl_mul (dbl_of_nat n) scale))"

text \<open>\<open>typeof file === "string" ? file : URL.createObjectURL(file)\<close>\<close>

fun source_url :: "image_source \<Rightarrow> url" where
  "source_url (FromUrl u) = u"
| "source_url (FromFile f) = ObjectUrl (file_blob f)"

text \<open>\<open>fileName.split(".")[0] + ".webp"\<close>: the name up to its first dot.\<close>

definition webp_name :: "string \<Rightarrow> string" where
  "webp_name fileName = takeWhile (\<lambda>c. c \<noteq> CHR ''.'') fileName @ ''.webp''"

text \<open>
  The promise of \<open>optimizeImage\<close> never rejects: every failure resolves to \<open>null\<close>. The
  size report written to the console has no effect on the result and is left out.
\<close>

definition optimizeImage ::
  "host \<Rightarrow> image_source option \<Rightarrow> string \<Rightarrow> return_type \<Rightarrow> optimized option" where
  "optimizeImage env file fileName returnType =
     (case file of
        None \<Rightarrow> None
      | Some f \<Rightarrow>
          if falsy_source file then None
          else
            (case loadImage env (source_url f) of
               None \<Rightarrow> None
             | Some originalImage \<Rightarrow>
                 if \<not> getContext2d env ScaledCanvas then None
                 else
                   let cnv = \<lparr>cv_width = scaled_dimension 300 (img_width originalImage),
                              cv_height = scaled_dimension 150 (img_height originalImage)\<rparr>
                   in
                     (case toBlob env cnv ''image/webp'' (Some quality) of
                        None \<Rightarrow> None
                      | Some b \<Rightarrow>
                          (case returnType of
                             AsString \<Rightarrow> Some (OptUrl (ObjectUrl b))
                           | AsFile \<Rightarrow>
                               Some (OptFile \<lparr>file_name = webp_name fileName, file_blob = b\<rparr>)))))"


section \<open>The page (\<open>Home\<close>)\<close>

text \<open>
  The page exists in two variants, the source files \<open>part_000\<close> and \<open>part_001\<close>. Both
  keep the same state variables (\<open>part_001\<close> adds the selected document type, which only
  sets the aspect ratio of the crop widget and is left out). \<open>fileInput\<close> is the value of
  the hidden file input behind \<open>fileInputRef\<close>, absent while the ref is not attached.
\<close>

record page =
  error :: "string option"
  uploading :: bool
  preview :: "string option"
  isDragOver :: bool
  selectedFile :: "fileobj option"
  croppedAreaPixels :: "pixel_crop option"
  result :: "response_data option"
  fileInput :: "string option"

text \<open>
  A handler reads the state of the render it was created in and acts on the world in two
  ways: it calls state setters, and it awaits the image libraries and the network. Both are
  recorded, in program order, as the list of actions the handler performs. An awaited call
  is one action: the handler resumes only when the call has settled, so an action that
  follows it begins after it has completed. Writes to the console are not recorded.
\<close>

datatype action =
    SetSelectedFile "fileobj option"
  | SetPreview "string option"
  | SetResult "response_data option"
  | SetError "string option"
  | SetUploading bool
  | ClearFileInput
  | Crop url pixel_crop
  | Optimize image_source string return_type
  | Fetch url
  | Post string form_data

fun apply_action :: "page \<Rightarrow> action \<Rightarrow> page" where
  "apply_action s (SetSelectedFile f) = s\<lparr>selectedFile := f\<rparr>"
| "apply_action s (SetPreview p) = s\<lparr>preview := p\<rparr>"
| "apply_action s (SetResult r) = s\<lparr>result := r\<rparr>"
| "apply_action s (SetError e) = s\<lparr>error := e\<rparr>"
| "apply_action s (SetUploading b) = s\<lparr>uploading := b\<rparr>"
| "apply_action s ClearFileInput =
     s\<lparr>fileInput := (case fileInput s of None \<Rightarrow> None | Some v \<Rightarrow> Some [])\<rparr>"
| "apply_action s (Crop u c) = s"
| "apply_action s (Optimize f n r) = s"
| "apply_action s (Fetch u) = s"
| "apply_action s (Post p d) = s"

definition run :: "page \<Rightarrow> action list \<Rightarrow> page" where
  "run s acts = foldl apply_action s acts"

text \<open>Truthiness of a \<open>string | null\<close> state variable.\<close>

fun truthy_opt :: "string option \<Rightarrow> bool" where
  "truthy_opt None = False"
| "truthy_opt (Some s) = truthy s"

subsection \<open>File selection and reset (the same in both variants)\<close>

definition file_type :: "fileobj \<Rightarrow> string" where
  "file_type f = blob_type (file_blob f)"

text \<open>
  The last action of a successful selection happens later, in the reader's \<open>onload\<close>
  callback, and only if the reader delivers a non-empty result.
\<close>

definition handleFileSelect :: "host \<Rightarrow> fileobj option \<Rightarrow> action list" where
  "handleFileSelect env file =
     (case file of
        None \<Rightarrow> []
      | Some f \<Rightarrow>
          if \<not> prefix ''image/'' (file_type f)
          then [SetError (Some ''Please select an image file only'')]
          else
            [SetSelectedFile (Some f), SetError None, SetResult None]
            @ (if truthy_opt (readAsDataURL env f)
               then [SetPreview (readAsDataURL env f)] else []))"


subsection \<open>Upload\<close>

definition fallback :: string where
  "fallback = ''Upload failed. Please try again.''"

text \<open>
  A handler's promise is fulfilled (\<open>None\<close>) or rejected (\<open>Some\<close> reason): the awaits of
  the image libraries stand outside the \<open>try\<close> block, so a rejection of
  \<open>getCroppedImg\<close> rejects the handler.
\<close>

type_synonym handled = "action list \<times> reason option"

text \<open>What the \<open>try\<close> block of \<open>part_001\<close> does once the request has resolved.\<close>

definition on_response_part001 :: "response_data \<Rightarrow> action list" where
  "on_response_part001 d =
     (case resp_result d of
        None \<Rightarrow> [SetError (Some (or_else None fallback))]
      | Some r \<Rightarrow>
          if \<not> is_authentic r then [SetError (Some (or_else (reasoning r) fallback))]
          else [SetResult (Some d)])"

text \<open>
  \<open>part_001\<close>: crop the preview, optimise the crop into a file, post it to \<open>/verify\<close>.
  When \<open>optimizeImage\<close> resolves to \<open>null\<close> the test \<open>typeof optimizedImage === "string"\<close>
  is false and the handler goes on: \<open>FormData.append\<close> then stores the string \<open>null\<close>.
  A response without \<open>result\<close> makes \<open>response.data.result.is_authentic\<close> throw a
  \<open>TypeError\<close>, which the \<open>catch\<close> block turns into the fallback message.
\<close>

definition handleUpload_part001 :: "host \<Rightarrow> page \<Rightarrow> handled" where
  "handleUpload_part001 env s =
     (case selectedFile s of
        None \<Rightarrow> ([], None)
      | Some sf \<Rightarrow>
          (case croppedAreaPixels s of
             None \<Rightarrow> ([], None)
           | Some area \<Rightarrow>
               (case preview s of
                  None \<Rightarrow> ([], None)
                | Some pv \<Rightarrow>
                    if \<not> truthy pv then ([], None)
                    else
                      let imageName = file_name sf;
                          cropping = Crop (Str pv) area
                      in
                        (case getCroppedImg_default env (Str pv) area of
                           Rejected e \<Rightarrow> ([cropping], Some e)
                         | Resolved None \<Rightarrow> ([cropping], None)
                         | Resolved (Some croppedImage) \<Rightarrow>
                             let optimizing = Optimize (FromUrl croppedImage) imageName AsFile;
                                 optimizedImage =
                                   optimizeImage env (Some (FromUrl croppedImage)) imageName AsFile
                             in
                               (case optimizedImage of
                                  Some (OptUrl u) \<Rightarrow> ([cropping, optimizing], None)
                                | _ \<Rightarrow>
                                    let formData =
                                          [(''image'',
                                            case optimizedImage of
                                              Some (OptFile f) \<Rightarrow> FileValue f
                                            | _ \<Rightarrow> StringValue ''null'')]
                                    in
                                      ([cropping, optimizing, SetUploading True, SetError None,
                                        Post ''/verify'' formData]
                                       @ (case post env ''/verify'' formData of
                                            Responded d \<Rightarrow> on_response_part001 d
                                          | Threw m \<Rightarrow> [SetError (Some (or_else m fallback))])
                                       @ [SetUploading False],
                                       None))))))"

text \<open>
  \<open>part_000\<close>: optimise the preview into an object URL, crop that, fetch the crop's blob,
  wrap it in a file named as the selected file, and post it to \<open>/user/documents\<close>. The fetch
  is inside the \<open>try\<close> block; when it throws, the error has no \<open>response\<close>.
\<close>

definition handleUpload_part000 :: "host \<Rightarrow> page \<Rightarrow> handled" where
  "handleUpload_part000 env s =
     (case selectedFile s of
        None \<Rightarrow> ([], None)
      | Some sf \<Rightarrow>
          (case croppedAreaPixels s of
             None \<Rightarrow> ([], None)
           | Some area \<Rightarrow>
               (case preview s of
                  None \<Rightarrow> ([], None)
                | Some pv \<Rightarrow>
                    if \<not> truthy pv then ([], None)
                    else
                      let imageName = file_name sf;
                          optimizing = Optimize (FromUrl (Str pv)) imageName AsString
                      in
                        (case optimizeImage env (Some (FromUrl (Str pv))) imageName AsString of
                           Some (OptUrl optimizedImage) \<Rightarrow>
                             let cropping = Crop optimizedImage area in
                               (case getCroppedImg_default env optimizedImage area of
                                  Rejected e \<Rightarrow> ([optimizing, cropping], Some e)
                                | Resolved None \<Rightarrow> ([optimizing, cropping], None)
                                | Resolved (Some croppedImage) \<Rightarrow>
                                    if \<not> truthy_url croppedImage then ([optimizing, cropping], None)
                                    else
                                      ([optimizing, cropping, SetUploading True, SetError None,
                                        Fetch croppedImage]
                                       @ (case fetchBlob env croppedImage of
                                            None \<Rightarrow> [SetError (Some (or_else None fallback))]
                                          | Some b \<Rightarrow>
                                              let imageFile =
                                                    \<lparr>file_name = imageName, file_blob = b\<rparr>;
                                                  formData = [(''image'', FileValue imageFile)]
                                              in
                                                Post ''/user/documents'' formData
                                                # (case post env ''/user/documents'' formData of
                                                     Responded d \<Rightarrow> [SetResult (Some d)]
                                                   | Threw m \<Rightarrow>
                                                       [SetError (Some (or_else m fallback))]))
                                       @ [SetUploading False],
                                       None))
                         | _ \<Rightarrow> ([optimizing], None)))))"

subsection \<open>Reading a run\<close>

text \<open>The three stages of the pipeline, as they appear among the actions of a run.\<close>

datatype stage = CropStage | CompressStage | UploadStage

fun stage_of :: "action \<Rightarrow> stage option" where
  "stage_of (Crop u c) = Some CropStage"
| "stage_of (Optimize f n r) = Some CompressStage"
| "stage_of (Post p d) = Some UploadStage"
| "stage_of a = None"

fun stages :: "action list \<Rightarrow> stage list" where
  "stages [] = []"
| "stages (a # acts) = (case stage_of a of None \<Rightarrow> stages acts | Some st \<Rightarrow> st # stages acts)"

text \<open>
  The state the page shows while the handler waits for the network: the setters called
  before its first network action have taken effect, the later ones have not.
\<close>

fun is_network :: "action \<Rightarrow> bool" where
  "is_network (Fetch u) = True"
| "is_network (Post p d) = True"
| "is_network a = False"

definition in_flight :: "page \<Rightarrow> action list \<Rightarrow> page" where
  "in_flight s acts = run s (takeWhile (\<lambda>a. \<not> is_network a) acts)"

text \<open>
  What the page renders, from the conditionals of the JSX: the upload prompt while
  \<open>preview\<close> is falsy and the crop widget with its two buttons otherwise, the button
  reading \<open>Verifying...\<close> while \<open>uploading\<close>, the error banner when \<open>error\<close> is truthy
  and the result panel when \<open>result\<close> is.
\<close>

definition shows_prompt :: "page \<Rightarrow> bool" where
  "shows_prompt s = (\<not> truthy_opt (preview s))"

definition shows_error :: "page \<Rightarrow> bool" where
  "shows_error s = truthy_opt (error s)"

definition shows_result :: "page \<Rightarrow> bool" where
  "shows_result s = (result s \<noteq> None)"

text \<open>
  The four user-interface states: a preview with nothing else going on, an upload in
  progress, a result on display, an error on display; and how many of them hold at once.
\<close>

definition preview_without_result :: "page \<Rightarrow> bool" where
  "preview_without_result s =
     (truthy_opt (preview s) \<and> \<not> uploading s \<and> \<not> shows_result s \<and> \<not> shows_error s)"

definition active_states :: "page \<Rightarrow> nat" where
  "active_states s =
     length (filter id [preview_without_result s, uploading s, shows_result s, shows_error s])"



section \<open>Sample inputs\<close>

text \<open>
  A browser in which everything works and a server that finds the document authentic; a
  page on which a JPEG has been selected, previewed and framed. The theorems below are
  instantiated on these and on variations of them.
\<close>

definition sample_result :: authenticity_result where
  "sample_result =
     \<lparr>is_authentic = True, confidence = 92 / 100, authenticity_confidence = 9 / 10,
      status = ''verified'', document_type = ''Passport'',
      reasoning = Some ''Security features are consistent'', anomaly_score = 1 / 10,
      ocr_result = \<lparr>full_text = ''P<UTO'', ocr_status = ''ok''\<rparr>\<rparr>"

definition sample_response :: response_data where
  "sample_response = \<lparr>resp_result = Some sample_result, resp_error = None\<rparr>"

definition rejecting_response :: response_data where
  "rejecting_response =
     \<lparr>resp_result = Some (sample_result\<lparr>is_authentic := False,
                                        reasoning := Some ''Font mismatch in the date field''\<rparr>),
      resp_error = None\<rparr>"

text \<open>
  The sample decoder finds a picture of 1000 by 805 pixels in every data URL, and in an
  object URL the bitmap its blob encodes.
\<close>

fun sample_decoder :: "url \<Rightarrow> image option" where
  "sample_decoder (Str s) = Some \<lparr>img_width = 1000, img_height = 805\<rparr>"
| "sample_decoder (ObjectUrl b) =
     (case blob_content b of
        Encoded w h \<Rightarrow> Some \<lparr>img_width = w, img_height = h\<rparr>
      | Raw bytes \<Rightarrow> None)"

definition sample_host :: host where
  "sample_host =
     \<lparr>loadImage = sample_decoder,
      getContext2d = (\<lambda>c. True),
      encode = (\<lambda>c t q. Some t),
      readAsDataURL = (\<lambda>f. Some ''data:image/jpeg;base64,AAAA''),
      fetchBlob = (\<lambda>u. case u of ObjectUrl b \<Rightarrow> Some b | Str s \<Rightarrow> None),
      post = (\<lambda>p d. Responded sample_response)\<rparr>"

definition sample_file :: fileobj where
  "sample_file =
     \<lparr>file_name = ''photo.jpg'',
      file_blob = \<lparr>blob_type = ''image/jpeg'', blob_content = Raw ''AAAA''\<rparr>\<rparr>"

text \<open>
  The frame chosen on the sample page, and what the pipelines make of it: the crop as a
  PNG, the file that \<open>part_001\<close> uploads and the file that \<open>part_000\<close> uploads.
\<close>

definition sample_area :: pixel_crop where
  "sample_area = \<lparr>crop_x = 10, crop_y = 20, crop_width = 300, crop_height = 200\<rparr>"

definition sample_png :: blob where
  "sample_png = \<lparr>blob_type = ''image/png'', blob_content = Encoded 300 200\<rparr>"

definition sample_webp :: fileobj where
  "sample_webp =
     \<lparr>file_name = ''photo.webp'',
      file_blob = \<lparr>blob_type = ''image/webp'', blob_content = Encoded 270 180\<rparr>\<rparr>"

definition sample_upload :: fileobj where
  "sample_upload = \<lparr>file_name = ''photo.jpg'', file_blob = sample_png\<rparr>"

definition sample_page :: page where
  "sample_page =
     \<lparr>error = None, uploading = False, preview = Some ''data:image/jpeg;base64,AAAA'',
      isDragOver = False, selectedFile = Some sample_file,
      croppedAreaPixels = Some sample_area,
      result = None, fileInput = Some ''photo.jpg''\<rparr>"

text \<open>A page on which nothing has been selected yet, and a file that is not an image.\<close>

definition text_file :: fileobj where
  "text_file = \<lparr>file_name = ''notes.txt'',
      file_blob = \<lparr>blob_type = ''text/plain'', blob_content = Raw ''hello''\<rparr>\<rparr>"

definition idle_page :: page where
  "idle_page = \<lparr>error = None, uploading = False, preview = None, isDragOver = False,
      selectedFile = None, croppedAreaPixels = None, result = None, fileInput = Some []\<rparr>"

section \<open>Properties\<close>

subsection \<open>The binary64 product and its truncation\<close>

text \<open>
  The constant called \<open>scale\<close> is the binary64 nearest to \<open>9/10\<close>: a normalised
  significand, less than half a unit in the last place away.
\<close>

lemma scale_nearest:
  "2 ^ 52 \<le> mant scale \<and> mant scale < 2 ^ 53
   \<and> \<bar>dbl_value scale - 9 / 10\<bar> < 1 / 2 * power_int 2 (expo scale)"
  by (simp add: scale_def dbl_value_def power_int_minus)

text \<open>
  It lies above \<open>9/10\<close>, by \<open>2/10\<close> of a unit in the last place. For a 32-bit factor this
  excess and the rounding of the product together stay far below \<open>1/10\<close>, and a product
  that is mathematically an integer is never rounded below it; so truncating the rounded
  product gives the integer part of nine tenths.
\<close>

lemma rne_bounds:
  "p div 2 ^ k \<le> round_nearest_even p k \<and> round_nearest_even p k \<le> p div 2 ^ k + 1"
  by (simp add: round_nearest_even_def Let_def)

lemma scale_times_ten: "10 * mant scale = 9 * 2 ^ 53 + 2"
  by (simp add: scale_def)

lemma product_exact:
  assumes n: "n < 2 ^ 32"
  shows "ulong_of_dbl (dbl_mul (dbl_of_nat n) scale) = 9 * n div 10"
proof -
  define M where "M = mant scale"
  define P where "P = n * M"
  define k where "k = floorlog 2 P - 53"
  define R where "R = round_nearest_even P k"
  define m where "m = 9 * n div 10"
  define j where "j = 53 - k"
  define T :: nat where "T = 2 ^ 53"
  have M10: "10 * M = 9 * T + 2"
    unfolding M_def T_def by (rule scale_times_ten)
  have M53: "M < 2 ^ 53"
    unfolding M_def by (simp add: scale_def)
  have "P < 2 ^ 32 * 2 ^ 53"
    unfolding P_def using n M53 by (rule mult_strict_mono) simp_all
  then have P85: "P < 2 ^ 85"
    by simp
  have "floorlog 2 P \<le> 85"
    using P85 by (simp add: floorlog_le_iff)
  then have k32: "k \<le> 32"
    unfolding k_def by simp
  have pow: "T = 2 ^ j * 2 ^ k"
    unfolding j_def T_def using k32 by (simp flip: power_add)
  have R_lo: "P div 2 ^ k \<le> R" and R_hi: "R \<le> P div 2 ^ k + 1"
    unfolding R_def using rne_bounds [of P k] by simp_all
  have m_lo: "10 * m \<le> 9 * n" and m_hi: "9 * n < 10 * m + 10"
    unfolding m_def by simp_all
  have P10: "10 * P = 9 * n * T + 2 * n"
  proof -
    have "10 * P = n * (10 * M)"
      unfolding P_def by simp
    also have "\<dots> = n * (9 * T + 2)"
      by (simp only: M10)
    also have "\<dots> = 9 * n * T + 2 * n"
      by (simp add: distrib_left)
    finally show ?thesis .
  qed
  have "10 * (m * T) \<le> 10 * P"
  proof -
    have "10 * (m * T) = (10 * m) * T"
      by simp
    also have "\<dots> \<le> (9 * n) * T"
      using m_lo by (rule mult_le_mono1)
    also have "\<dots> \<le> 10 * P"
      unfolding P10 by simp
    finally show ?thesis .
  qed
  then have lo53: "m * T \<le> P"
    by simp
  have "m * 2 ^ j * 2 ^ k \<le> P"
    using lo53 by (simp add: pow mult.assoc)
  then have "m * 2 ^ j \<le> P div 2 ^ k"
    by (simp add: less_eq_div_iff_mult_less_eq)
  with R_lo have lo: "m * 2 ^ j \<le> R"
    by simp
  have k_pow: "(2::nat) ^ k \<le> 2 ^ 32"
    using k32 by (intro power_increasing) simp_all
  have "10 * (P + 2 * 2 ^ k) \<le> 10 * ((m + 1) * T)"
  proof -
    have "10 * (P + 2 * 2 ^ k) = 9 * n * T + (2 * n + 20 * 2 ^ k)"
      using P10 by simp
    also have "\<dots> \<le> (10 * m + 9) * T + (2 * n + 20 * 2 ^ k)"
      using m_hi by (intro add_mono mult_le_mono1) simp_all
    also have "\<dots> \<le> (10 * m + 9) * T + T"
      using n k_pow unfolding T_def by (intro add_mono) simp_all
    also have "\<dots> = 10 * ((m + 1) * T)"
      by (simp add: algebra_simps)
    finally show ?thesis .
  qed
  then have hi53: "P + 2 * 2 ^ k \<le> (m + 1) * T"
    by simp
  have "(P div 2 ^ k + 2) * 2 ^ k \<le> P + 2 * 2 ^ k"
    by (simp add: add_mult_distrib)
  also have "\<dots> \<le> ((m + 1) * 2 ^ j) * 2 ^ k"
    using hi53 by (simp only: pow mult.assoc)
  finally have "(P div 2 ^ k + 2) * 2 ^ k \<le> ((m + 1) * 2 ^ j) * 2 ^ k" .
  then have "P div 2 ^ k + 2 \<le> (m + 1) * 2 ^ j"
    unfolding mult_le_cancel2 by simp
  with R_hi have hi: "R < (m + 1) * 2 ^ j"
    by simp
  have Rdiv: "R div 2 ^ j = m"
    using lo hi by (intro div_nat_eqI) (simp_all add: mult.commute)
  have m32: "m < 2 ^ 32"
    using m_lo n by simp
  have "dbl_mul (dbl_of_nat n) scale = \<lparr>mant = R, expo = - 53 + int k\<rparr>"
    by (simp add: dbl_mul_def dbl_of_nat_def dbl_round_def Let_def R_def k_def P_def M_def
          scale_def)
  moreover have "nat (53 - int k) = j"
    unfolding j_def by simp
  ultimately have "ulong_of_dbl (dbl_mul (dbl_of_nat n) scale) = (R div 2 ^ j) mod 2 ^ 32"
    using k32 by (simp add: ulong_of_dbl_def)
  then show ?thesis
    using Rdiv m32 by (simp add: m_def)
qed


lemma scaled_dimension_div:
  assumes "n < 2 ^ 31"
  shows "scaled_dimension dflt n = 9 * n div 10"
proof -
  from assms have "n < 2 ^ 32" by simp
  then have "ulong_of_dbl (dbl_mul (dbl_of_nat n) scale) = 9 * n div 10"
    by (rule product_exact)
  moreover from assms have "9 * n div 10 \<le> 2147483647" by simp
  ultimately show ?thesis
    by (simp add: scaled_dimension_def reflect_dimension_def)
qed


subsection \<open>The crop library\<close>


text \<open>
  C8. When surface creation is unavailable (either canvas yields no 2D context) or encoding
  is unavailable (\<open>toBlob\<close> hands no blob to its callback), \<open>getCroppedImg\<close> ends in
  failure: it rejects, or it resolves to \<open>null\<close>; it never resolves to a URL.
\<close>

theorem getCroppedImg_fails_without_surface_or_encoder:
  assumes "\<not> getContext2d env RotatedCanvas \<or> \<not> getContext2d env CroppedCanvas
           \<or> (\<forall>c. encode env c ''image/png'' None = None)"
  shows "((\<exists>e. getCroppedImg env imageSrc pixelCrop rotation flp = Rejected e)
          \<or> getCroppedImg env imageSrc pixelCrop rotation flp = Resolved None)
         \<and> (\<forall>u. getCroppedImg env imageSrc pixelCrop rotation flp \<noteq> Resolved (Some u))"
  using assms
  by (auto simp: getCroppedImg_def createImage_def toBlob_def Let_def
           split: option.splits promise.splits)

text \<open>
  Both failures on the sample page: without a 2D context the promise resolves to \<open>null\<close>,
  without an encoder it rejects.
\<close>

theorem getCroppedImg_fails_without_surface_or_encoder_witness:
  "getCroppedImg (sample_host\<lparr>getContext2d := (\<lambda>c. False)\<rparr>)
       (Str ''data:image/jpeg;base64,AAAA'') sample_area 0 no_flip = Resolved None
   \<and> getCroppedImg (sample_host\<lparr>encode := (\<lambda>c t q. None)\<rparr>)
       (Str ''data:image/jpeg;base64,AAAA'') sample_area 0 no_flip
     = Rejected (Error ''Failed to create blob.'')"
  using getCroppedImg_fails_without_surface_or_encoder
          [of "sample_host\<lparr>getContext2d := (\<lambda>c. False)\<rparr>"
              "Str ''data:image/jpeg;base64,AAAA''" sample_area 0 no_flip]
        getCroppedImg_fails_without_surface_or_encoder
          [of "sample_host\<lparr>encode := (\<lambda>c t q. None)\<rparr>"
              "Str ''data:image/jpeg;base64,AAAA''" sample_area 0 no_flip]
  by (simp add: getCroppedImg_def createImage_def sample_host_def toBlob_def Let_def)

subsection \<open>The compression library\<close>



subsection \<open>The runs of the upload handlers\<close>

lemma stages_append: "stages (xs @ ys) = stages xs @ stages ys"
  by (induction xs) (simp_all split: option.splits)

lemma stages_on_response_part001: "stages (on_response_part001 d) = []"
  by (simp add: on_response_part001_def split: option.splits)

lemma no_post_on_response_part001: "Post p fd \<notin> set (on_response_part001 d)"
  by (simp add: on_response_part001_def split: option.splits)

text \<open>A run that posts has gone through every stage; its actions are these.\<close>

lemma part001_shape:
  assumes "Post p fd \<in> set (fst (handleUpload_part001 env s))"
  shows "\<exists>sf area pv u.
           selectedFile s = Some sf \<and> croppedAreaPixels s = Some area \<and> preview s = Some pv
           \<and> getCroppedImg_default env (Str pv) area = Resolved (Some u)
           \<and> p = ''/verify''
           \<and> fd = [(''image'',
                     case optimizeImage env (Some (FromUrl u)) (file_name sf) AsFile of
                       Some (OptFile f) \<Rightarrow> FileValue f
                     | _ \<Rightarrow> StringValue ''null'')]
           \<and> handleUpload_part001 env s =
               ([Crop (Str pv) area, Optimize (FromUrl u) (file_name sf) AsFile,
                 SetUploading True, SetError None, Post ''/verify'' fd]
                @ (case post env ''/verify'' fd of
                     Responded d \<Rightarrow> on_response_part001 d
                   | Threw m \<Rightarrow> [SetError (Some (or_else m fallback))])
                @ [SetUploading False], None)"
  using assms
  by (auto simp: handleUpload_part001_def Let_def no_post_on_response_part001
        split: option.splits promise.splits optimized.splits http_outcome.splits if_splits)

lemma part000_shape:
  assumes "Post p fd \<in> set (fst (handleUpload_part000 env s))"
  shows "\<exists>sf area pv u c b.
           selectedFile s = Some sf \<and> croppedAreaPixels s = Some area \<and> preview s = Some pv
           \<and> optimizeImage env (Some (FromUrl (Str pv))) (file_name sf) AsString = Some (OptUrl u)
           \<and> getCroppedImg_default env u area = Resolved (Some c)
           \<and> fetchBlob env c = Some b
           \<and> p = ''/user/documents''
           \<and> fd = [(''image'', FileValue \<lparr>file_name = file_name sf, file_blob = b\<rparr>)]
           \<and> handleUpload_part000 env s =
               ([Optimize (FromUrl (Str pv)) (file_name sf) AsString, Crop u area,
                 SetUploading True, SetError None, Fetch c, Post ''/user/documents'' fd]
                @ (case post env ''/user/documents'' fd of
                     Responded d \<Rightarrow> [SetResult (Some d)]
                   | Threw m \<Rightarrow> [SetError (Some (or_else m fallback))])
                @ [SetUploading False], None)"
  using assms
  by (auto simp: handleUpload_part000_def Let_def
        split: option.splits promise.splits optimized.splits http_outcome.splits if_splits)

text \<open>The state while the request is pending.\<close>

lemma not_network_on_response_part001: "\<not> list_ex is_network (on_response_part001 d)"
  by (simp add: on_response_part001_def split: option.splits)

lemma part001_in_flight:
  "in_flight s (fst (handleUpload_part001 env s))
     = (if list_ex is_network (fst (handleUpload_part001 env s))
        then s\<lparr>uploading := True, error := None\<rparr> else s)"
  by (simp add: handleUpload_part001_def Let_def in_flight_def run_def
        split: option.splits promise.splits optimized.splits)

lemma part000_in_flight:
  "in_flight s (fst (handleUpload_part000 env s))
     = (if list_ex is_network (fst (handleUpload_part000 env s))
        then s\<lparr>uploading := True, error := None\<rparr> else s)"
  by (simp add: handleUpload_part000_def Let_def in_flight_def run_def
        split: option.splits promise.splits optimized.splits)

text \<open>The two handlers on the sample page, against any server.\<close>

lemma sample_crop:
  "getCroppedImg_default (sample_host\<lparr>post := srv\<rparr>) (Str pv) sample_area
     = Resolved (Some (ObjectUrl sample_png))"
  by (simp add: getCroppedImg_default_def getCroppedImg_def createImage_def sample_host_def
        toBlob_def Let_def reflect_dimension_def ulong_of_real_def sample_area_def sample_png_def)

lemma sample_optimize_crop:
  "optimizeImage (sample_host\<lparr>post := srv\<rparr>) (Some (FromUrl (ObjectUrl sample_png)))
       ''photo.jpg'' AsFile
     = Some (OptFile sample_webp)"
  by (simp add: optimizeImage_def sample_host_def toBlob_def Let_def scaled_dimension_div
        webp_name_def sample_png_def sample_webp_def)

lemma sample_run_part001:
  "fst (handleUpload_part001 (sample_host\<lparr>post := srv\<rparr>)
          (sample_page\<lparr>result := r, error := e\<rparr>)) =
     [Crop (Str ''data:image/jpeg;base64,AAAA'') sample_area,
      Optimize (FromUrl (ObjectUrl sample_png)) ''photo.jpg'' AsFile,
      SetUploading True, SetError None, Post ''/verify'' [(''image'', FileValue sample_webp)]]
     @ (case srv ''/verify'' [(''image'', FileValue sample_webp)] of
          Responded d \<Rightarrow> on_response_part001 d
        | Threw m \<Rightarrow> [SetError (Some (or_else m fallback))])
     @ [SetUploading False]"
  by (simp add: handleUpload_part001_def sample_page_def sample_file_def truthy_def sample_crop
        sample_optimize_crop Let_def)

lemma sample_run_part000:
  "fst (handleUpload_part000 (sample_host\<lparr>post := srv\<rparr>)
          (sample_page\<lparr>result := r, error := e\<rparr>)) =
     [Optimize (FromUrl (Str ''data:image/jpeg;base64,AAAA'')) ''photo.jpg'' AsString,
      Crop (ObjectUrl \<lparr>blob_type = ''image/webp'', blob_content = Encoded 900 724\<rparr>) sample_area,
      SetUploading True, SetError None, Fetch (ObjectUrl sample_png),
      Post ''/user/documents'' [(''image'', FileValue sample_upload)]]
     @ (case srv ''/user/documents'' [(''image'', FileValue sample_upload)] of
          Responded d \<Rightarrow> [SetResult (Some d)]
        | Threw m \<Rightarrow> [SetError (Some (or_else m fallback))])
     @ [SetUploading False]"
  by (simp add: handleUpload_part000_def sample_page_def sample_file_def truthy_def Let_def
        optimizeImage_def sample_host_def toBlob_def scaled_dimension_div
        getCroppedImg_default_def getCroppedImg_def createImage_def reflect_dimension_def
        ulong_of_real_def sample_area_def sample_png_def sample_upload_def)

lemma sample_host_post: "sample_host\<lparr>post := (\<lambda>p d. Responded sample_response)\<rparr> = sample_host"
  by (simp add: sample_host_def)

lemma sample_page_plain: "sample_page\<lparr>result := None, error := None\<rparr> = sample_page"
  by (simp add: sample_page_def)

subsection \<open>File selection and reset\<close>

text \<open>
  C7. When the declared content type of the chosen file does not start with \<open>image/\<close>,
  \<open>handleFileSelect\<close> does one thing: it sets the error message
  \<open>Please select an image file only\<close>. The selected file, the preview and the result
  stay as they were, so a page that showed the upload prompt still shows it.
\<close>

theorem handleFileSelect_rejects_non_image:
  assumes "\<not> prefix ''image/'' (file_type f)"
  shows "handleFileSelect env (Some f) = [SetError (Some ''Please select an image file only'')]
         \<and> run s (handleFileSelect env (Some f))
             = s\<lparr>error := Some ''Please select an image file only''\<rparr>
         \<and> selectedFile (run s (handleFileSelect env (Some f))) = selectedFile s
         \<and> preview (run s (handleFileSelect env (Some f))) = preview s
         \<and> result (run s (handleFileSelect env (Some f))) = result s"
  using assms by (simp add: handleFileSelect_def run_def)

theorem handleFileSelect_rejects_non_image_witness:
  "\<not> prefix ''image/'' (file_type text_file)
   \<and> run idle_page (handleFileSelect sample_host (Some text_file))
       = idle_page\<lparr>error := Some ''Please select an image file only''\<rparr>
   \<and> shows_prompt (run idle_page (handleFileSelect sample_host (Some text_file)))"
  using handleFileSelect_rejects_non_image [of text_file sample_host idle_page]
  by (simp add: text_file_def file_type_def idle_page_def shows_prompt_def run_def)



subsection \<open>Upload\<close>

text \<open>
  C1, as the code has it. Each variant runs its stages strictly one after the other, and
  the request comes last, after both image steps have completed; a run that stops early
  has performed an initial part of the sequence. In \<open>part_001\<close> the sequence is crop,
  compress, upload. In \<open>part_000\<close> it is compress, crop, upload.
\<close>

theorem upload_pipeline_order:
  "prefix (stages (fst (handleUpload_part001 env s))) [CropStage, CompressStage, UploadStage]
   \<and> prefix (stages (fst (handleUpload_part000 env s))) [CompressStage, CropStage, UploadStage]"
proof
  show "prefix (stages (fst (handleUpload_part001 env s))) [CropStage, CompressStage, UploadStage]"
    by (simp add: handleUpload_part001_def Let_def stages_append stages_on_response_part001
           split: option.splits promise.splits optimized.splits http_outcome.splits)
  show "prefix (stages (fst (handleUpload_part000 env s))) [CompressStage, CropStage, UploadStage]"
    by (simp add: handleUpload_part000_def Let_def stages_append
           split: option.splits promise.splits optimized.splits http_outcome.splits)
qed

text \<open>
  On the sample page \<open>part_000\<close> compresses before it crops, so its run is not an
  initial part of crop, compress, upload.
\<close>

theorem part000_compresses_before_cropping:
  "\<not> prefix (stages (fst (handleUpload_part000 sample_host sample_page)))
             [CropStage, CompressStage, UploadStage]"
  using sample_run_part000 [where srv = "\<lambda>p d. Responded sample_response" and r = None
                              and e = None]
  by (simp add: sample_host_post sample_page_plain stages_append)






text \<open>
  C6, as the code has it. When a handler starts its upload it sets \<open>uploading\<close> and
  clears the error, and that is all: while the request is pending the page is the page
  the handler started from with these two changes, so a result from an earlier attempt is
  still there.
\<close>

theorem starting_upload:
  assumes "h = handleUpload_part000 \<or> h = handleUpload_part001"
      and "list_ex is_network (fst (h env s))"
  shows "in_flight s (fst (h env s)) = s\<lparr>uploading := True, error := None\<rparr>
         \<and> uploading (in_flight s (fst (h env s)))
         \<and> error (in_flight s (fst (h env s))) = None
         \<and> result (in_flight s (fst (h env s))) = result s"
  using assms part000_in_flight [of s env] part001_in_flight [of s env]
  by auto

theorem starting_upload_witness:
  "in_flight (sample_page\<lparr>error := Some ''Upload failed. Please try again.''\<rparr>)
     (fst (handleUpload_part001 sample_host
             (sample_page\<lparr>error := Some ''Upload failed. Please try again.''\<rparr>)))
   = sample_page\<lparr>uploading := True\<rparr>
   \<and> in_flight (sample_page\<lparr>error := Some ''Upload failed. Please try again.''\<rparr>)
     (fst (handleUpload_part000 sample_host
             (sample_page\<lparr>error := Some ''Upload failed. Please try again.''\<rparr>)))
   = sample_page\<lparr>uploading := True\<rparr>"
  using starting_upload [of handleUpload_part001 sample_host
                            "sample_page\<lparr>error := Some ''Upload failed. Please try again.''\<rparr>"]
        starting_upload [of handleUpload_part000 sample_host
                            "sample_page\<lparr>error := Some ''Upload failed. Please try again.''\<rparr>"]
        sample_run_part001 [where srv = "\<lambda>p d. Responded sample_response" and r = None
                              and e = "Some ''Upload failed. Please try again.''"]
        sample_run_part000 [where srv = "\<lambda>p d. Responded sample_response" and r = None
                              and e = "Some ''Upload failed. Please try again.''"]
  by (simp add: sample_host_post sample_page_def)

text \<open>
  A second upload from a page that shows a result: while the request is pending the old
  result is still in the state, and two of the four user-interface states are active.
\<close>

theorem stale_result_while_uploading:
  "result (in_flight (sample_page\<lparr>result := Some sample_response\<rparr>)
             (fst (handleUpload_part001 sample_host
                     (sample_page\<lparr>result := Some sample_response\<rparr>))))
     = Some sample_response
   \<and> \<not> active_states (in_flight (sample_page\<lparr>result := Some sample_response\<rparr>)
             (fst (handleUpload_part001 sample_host
                     (sample_page\<lparr>result := Some sample_response\<rparr>))))
         \<le> 1"
  using sample_run_part001 [where srv = "\<lambda>p d. Responded sample_response"
                              and r = "Some sample_response" and e = None]
  by (simp add: sample_host_post in_flight_def run_def active_states_def sample_page_def
        shows_result_def shows_error_def preview_without_result_def)

text \<open>
  C4. In \<open>part_001\<close>, when the request resolves with a response whose
  \<open>result.is_authentic\<close> is false, the error text becomes the response's \<open>reasoning\<close>
  (the fallback message when \<open>reasoning\<close> is absent or empty) and is shown; the handler
  never calls \<open>setResult\<close>, so the stored result is what it was before.
\<close>

theorem inauthentic_verdict_is_an_error:
  assumes "Post p fd \<in> set (fst (handleUpload_part001 env s))"
      and "post env p fd = Responded d"
      and "resp_result d = Some r"
      and "\<not> is_authentic r"
  shows "error (run s (fst (handleUpload_part001 env s))) = Some (or_else (reasoning r) fallback)
         \<and> shows_error (run s (fst (handleUpload_part001 env s)))
         \<and> (\<forall>x. SetResult x \<notin> set (fst (handleUpload_part001 env s)))
         \<and> result (run s (fst (handleUpload_part001 env s))) = result s"
proof -
  have "truthy (or_else (reasoning r) fallback)"
    by (cases "reasoning r") (simp_all add: truthy_def fallback_def)
  then show ?thesis
    using part001_shape [OF assms(1)] assms(2,3,4)
    by (clarsimp simp: run_def shows_error_def on_response_part001_def)
qed

theorem inauthentic_verdict_is_an_error_witness:
  "error (run sample_page (fst (handleUpload_part001
            (sample_host\<lparr>post := (\<lambda>p d. Responded rejecting_response)\<rparr>) sample_page)))
     = Some ''Font mismatch in the date field''
   \<and> result (run sample_page (fst (handleUpload_part001
            (sample_host\<lparr>post := (\<lambda>p d. Responded rejecting_response)\<rparr>) sample_page))) = None"
  using inauthentic_verdict_is_an_error
          [of "''/verify''" "[(''image'', FileValue sample_webp)]"
              "sample_host\<lparr>post := (\<lambda>p d. Responded rejecting_response)\<rparr>" sample_page
              rejecting_response
              "sample_result\<lparr>is_authentic := False,
                             reasoning := Some ''Font mismatch in the date field''\<rparr>"]
        sample_run_part001 [where srv = "\<lambda>p d. Responded rejecting_response" and r = None
                              and e = None]
  by (simp add: sample_page_plain rejecting_response_def truthy_def)
     (simp add: sample_page_def)

text \<open>
  C10. In both variants, when the request throws, the run leaves the page as it found it
  except for two fields: the error is the message of the error's response body when there
  is a non-empty one and the fallback message otherwise, and \<open>uploading\<close> is false. In
  particular the stored result is unchanged.
\<close>

theorem failed_request_keeps_result:
  assumes "h = handleUpload_part000 \<or> h = handleUpload_part001"
      and "Post p fd \<in> set (fst (h env s))"
      and "post env p fd = Threw m"
  shows "run s (fst (h env s)) = s\<lparr>error := Some (or_else m fallback), uploading := False\<rparr>
         \<and> result (run s (fst (h env s))) = result s
         \<and> error (run s (fst (h env s))) = Some (or_else m fallback)
         \<and> uploading (run s (fst (h env s))) = False"
  using assms(1)
proof
  assume "h = handleUpload_part000"
  with assms(2,3) part000_shape [of p fd env s] show ?thesis
    by (clarsimp simp: run_def)
next
  assume "h = handleUpload_part001"
  with assms(2,3) part001_shape [of p fd env s] show ?thesis
    by (clarsimp simp: run_def)
qed

theorem failed_request_keeps_result_witness:
  "run (sample_page\<lparr>result := Some sample_response\<rparr>)
     (fst (handleUpload_part001
             (sample_host\<lparr>post := (\<lambda>p d. Threw (Some ''Service unavailable''))\<rparr>)
             (sample_page\<lparr>result := Some sample_response\<rparr>)))
   = sample_page\<lparr>result := Some sample_response, error := Some ''Service unavailable''\<rparr>
   \<and> run sample_page
     (fst (handleUpload_part000 (sample_host\<lparr>post := (\<lambda>p d. Threw None)\<rparr>) sample_page))
   = sample_page\<lparr>error := Some ''Upload failed. Please try again.''\<rparr>"
  using failed_request_keeps_result
          [of handleUpload_part001 "''/verify''" "[(''image'', FileValue sample_webp)]"
              "sample_host\<lparr>post := (\<lambda>p d. Threw (Some ''Service unavailable''))\<rparr>"
              "sample_page\<lparr>result := Some sample_response\<rparr>" "Some ''Service unavailable''"]
        failed_request_keeps_result
          [of handleUpload_part000 "''/user/documents''" "[(''image'', FileValue sample_upload)]"
              "sample_host\<lparr>post := (\<lambda>p d. Threw None)\<rparr>" sample_page None]
        sample_run_part001 [where srv = "\<lambda>p d. Threw (Some ''Service unavailable'')"
                              and r = "Some sample_response" and e = None]
        sample_run_part000 [where srv = "\<lambda>p d. Threw None" and r = None and e = None]
  by (simp add: sample_page_plain truthy_def fallback_def) (simp add: sample_page_def)

end
